theory Spec2Isabelle
  imports
    Complex_Main
    "HOL-Library.Char_ord"
    "HOL-Library.List_Lexorder"
    "HOL-Library.Product_Lexorder"
    "HOL-Library.Multiset"
    "HOL-Library.Sublist"
begin

section \<open>Unit formatting of pint: \<open>pint/delegates/base_formatter.py\<close>\<close>

text \<open>
  The module renders a mapping of unit names to exponents as a string. Python strings
  are modelled as \<open>string\<close> (the UTF-8 bytes of the text), exceptions as values of
  the type \<open>error\<close>, and a function that may raise returns \<open>error + 'a\<close>.
\<close>

subsection \<open>Exceptions\<close>

datatype error =
    FormatExists string
      \<comment> \<open>\<open>ValueError(f"format {name!r} already exists")\<close>\<close>
  | UnknownConversion string
      \<comment> \<open>\<open>ValueError(f"Unknown conversion specified: {spec}")\<close>\<close>
  | NoRecognizedDimensions string string
      \<comment> \<open>\<open>KeyError(f"Unit {unit_name} (aka {cname}) has no recognized dimensions")\<close>\<close>
  | SiunitxWithoutRegistry
      \<comment> \<open>\<open>ValueError("Can't format as siunitx without a registry. ...")\<close>\<close>
  | DuplicateKeyword string
      \<comment> \<open>\<open>TypeError\<close>: an argument given twice in a call\<close>
  | MissingArgument string
      \<comment> \<open>\<open>TypeError\<close>: a required positional argument missing in a call\<close>
  | FormatValueError
      \<comment> \<open>\<open>ValueError\<close> of \<open>str.format\<close>: a single brace, or automatic and manual numbering mixed\<close>
  | FormatIndexError
      \<comment> \<open>\<open>IndexError\<close> of \<open>str.format\<close>: replacement index out of range\<close>
  | FormatFieldNotModelled
      \<comment> \<open>a replacement field with a name, a conversion or a format spec: outside the fragment of \<open>str.format\<close> modelled here\<close>

subsection \<open>Python's \<open>str.format\<close> and \<open>str.join\<close>\<close>

text \<open>
  \<open>str.format\<close> on positional string arguments, for templates made of literal text,
  the escapes \<open>{{\<close> and \<open>}}\<close>, and the replacement fields \<open>{}\<close> and \<open>{n}\<close>. The
  template is read left to right, as CPython does, so the first error met is the one
  raised.
\<close>

datatype scan_mode = Text | AfterOpen | InField string | AfterClose

datatype numbering = Unnumbered | AutoNumbered nat | Manual

definition is_digit :: "char \<Rightarrow> bool" where
  "is_digit c = (c \<in> set ''0123456789'')"

definition digit_val :: "char \<Rightarrow> nat" where
  "digit_val c = of_char c - 48"

definition nat_of_digits :: "string \<Rightarrow> nat" where
  "nat_of_digits ds = foldl (\<lambda>n c. 10 * n + digit_val c) 0 ds"

definition arg_at :: "string list \<Rightarrow> nat \<Rightarrow> error + string" where
  "arg_at args i = (if i < length args then Inr (args ! i) else Inl FormatIndexError)"

definition emit :: "string \<Rightarrow> error + string \<Rightarrow> error + string" where
  "emit s r = (case r of Inl e \<Rightarrow> Inl e | Inr t \<Rightarrow> Inr (s @ t))"

fun format_scan :: "scan_mode \<Rightarrow> numbering \<Rightarrow> string list \<Rightarrow> string \<Rightarrow> error + string" where
  "format_scan Text nb args [] = Inr []"
| "format_scan Text nb args (c # cs) =
     (if c = CHR ''{'' then format_scan AfterOpen nb args cs
      else if c = CHR ''}'' then format_scan AfterClose nb args cs
      else emit [c] (format_scan Text nb args cs))"
| "format_scan AfterOpen nb args [] = Inl FormatValueError"
| "format_scan AfterOpen nb args (c # cs) =
     (if c = CHR ''{'' then emit [c] (format_scan Text nb args cs)
      else if c = CHR ''}'' then
        (case nb of
           Manual \<Rightarrow> Inl FormatValueError
         | Unnumbered \<Rightarrow>
             (case arg_at args 0 of Inl e \<Rightarrow> Inl e
              | Inr a \<Rightarrow> emit a (format_scan Text (AutoNumbered 1) args cs))
         | AutoNumbered i \<Rightarrow>
             (case arg_at args i of Inl e \<Rightarrow> Inl e
              | Inr a \<Rightarrow> emit a (format_scan Text (AutoNumbered (Suc i)) args cs)))
      else if is_digit c then format_scan (InField [c]) nb args cs
      else Inl FormatFieldNotModelled)"
| "format_scan (InField ds) nb args [] = Inl FormatValueError"
| "format_scan (InField ds) nb args (c # cs) =
     (if c = CHR ''}'' then
        (case nb of
           AutoNumbered i \<Rightarrow> Inl FormatValueError
         | _ \<Rightarrow>
             (case arg_at args (nat_of_digits ds) of Inl e \<Rightarrow> Inl e
              | Inr a \<Rightarrow> emit a (format_scan Text Manual args cs)))
      else if is_digit c then format_scan (InField (ds @ [c])) nb args cs
      else Inl FormatFieldNotModelled)"
| "format_scan AfterClose nb args [] = Inl FormatValueError"
| "format_scan AfterClose nb args (c # cs) =
     (if c = CHR ''}'' then emit [c] (format_scan Text nb args cs)
      else Inl FormatValueError)"

definition py_format :: "string \<Rightarrow> string list \<Rightarrow> error + string" where
  "py_format fmt args = format_scan Text Unnumbered args fmt"

fun str_join :: "string \<Rightarrow> string list \<Rightarrow> string" where
  "str_join sep [] = []"
| "str_join sep [x] = x"
| "str_join sep (x # y # ys) = x @ sep @ str_join sep (y # ys)"

subsection \<open>\<open>Formatter._join\<close>\<close>

text \<open>
  \<open>__JOIN_REG_EXP = re.compile(r"{\d*}")\<close>: the template holds an opening brace, then
  digits, then a closing brace. (ASCII digits; \<open>\d\<close> also accepts the other Unicode
  decimal digits.)
\<close>

fun join_reg_exp_search :: "string \<Rightarrow> bool" where
  "join_reg_exp_search [] = False"
| "join_reg_exp_search (c # cs) =
     ((c = CHR ''{'' \<and> (case dropWhile is_digit cs of [] \<Rightarrow> False | d # _ \<Rightarrow> d = CHR ''}''))
      \<or> join_reg_exp_search cs)"

fun join_loop :: "string \<Rightarrow> string \<Rightarrow> string list \<Rightarrow> error + string" where
  "join_loop fmt first [] = Inr first"
| "join_loop fmt first (val # rest) =
     (case py_format fmt [first, val] of
        Inl e \<Rightarrow> Inl e
      | Inr ret \<Rightarrow> join_loop fmt ret rest)"

definition join :: "string \<Rightarrow> string list \<Rightarrow> error + string" where
  "join fmt iterable =
     (case iterable of
        [] \<Rightarrow> Inr []
      | first # rest \<Rightarrow>
          if \<not> join_reg_exp_search fmt then Inr (str_join fmt iterable)
          else join_loop fmt first rest)"

subsection \<open>\<open>str.replace\<close> and \<open>str.strip\<close>\<close>

function str_replace :: "string \<Rightarrow> string \<Rightarrow> string \<Rightarrow> string" where
  "str_replace old new s =
     (if old = [] then new @ concat (map (\<lambda>c. c # new) s)
      else case s of
        [] \<Rightarrow> []
      | c # cs \<Rightarrow>
          if prefix old s then new @ str_replace old new (drop (length old) s)
          else c # str_replace old new cs)"
  by pat_completeness auto
termination
  by (relation "measure (\<lambda>(old, new, s). length s)") auto

text \<open>
  \<open>str.strip()\<close> removes white space at both ends. The ASCII white space of Python
  is modelled; the white space beyond ASCII (such as U+00A0) is not.
\<close>

definition is_space :: "char \<Rightarrow> bool" where
  "is_space c = (let n = (of_char c :: nat) in n = 32 \<or> (9 \<le> n \<and> n \<le> 13) \<or> (28 \<le> n \<and> n \<le> 31))"

definition str_strip :: "string \<Rightarrow> string" where
  "str_strip s = rev (dropWhile is_space (rev (dropWhile is_space s)))"

subsection \<open>Exponents, items and the collaborators\<close>

text \<open>
  An exponent is a Python \<open>int\<close> or a finite \<open>float\<close>; a float is modelled by the
  rational number it denotes, which makes the comparisons of the source exact.
\<close>

datatype number = PyInt int | PyFloat rat

fun num_val :: "number \<Rightarrow> rat" where
  "num_val (PyInt i) = of_int i"
| "num_val (PyFloat r) = r"

fun num_abs :: "number \<Rightarrow> number" where
  "num_abs (PyInt i) = PyInt \<bar>i\<bar>"
| "num_abs (PyFloat r) = PyFloat \<bar>r\<bar>"

type_synonym item = "string \<times> number"

text \<open>
  The unit registry is a collaborator outside this module. \<open>get_name\<close> answers
  \<open>None\<close> or a string; \<open>get_dimensionality\<close> answers a mapping whose keys are
  dimension tokens, of which only the key set is read; \<open>prefixes\<close> are the names of
  \<open>registry._prefixes.values()\<close> in the order of the dictionary. Exceptions raised
  inside the registry are not modelled.
\<close>

record unit_registry =
  get_name :: "string \<Rightarrow> string option"
  get_dimensionality :: "string \<Rightarrow> string set"
  prefixes :: "string list"

text \<open>
  The parts of a babel \<open>Locale\<close> that \<open>formatter\<close> reads:
  \<open>unit_patterns k l p\<close> is \<open>_data["unit_patterns"].get(k, {}).get(l, {}).get(p)\<close> and
  \<open>compound_per l\<close> is \<open>_data["compound_unit_patterns"].get("per", {}).get(l)\<close>, which
  is a pattern or a dictionary that may hold a pattern under \<open>"compound"\<close>.
\<close>

datatype per_entry = PerStr string | PerDict "string option"

record locale_data =
  unit_patterns :: "string \<Rightarrow> string \<Rightarrow> string \<Rightarrow> string option"
  compound_per :: "string \<Rightarrow> per_entry option"

text \<open>
  What the module takes from outside: Python's number format \<open>"{:n}".format\<close>, and
  the tables \<open>_babel_units\<close> and \<open>_babel_lengths\<close> of \<open>pint.babel_names\<close>.
\<close>

record environment =
  format_n :: "number \<Rightarrow> string"
  babel_units :: "string \<Rightarrow> string option"
  babel_lengths :: "string list"

text \<open>The configuration of a \<open>Formatter\<close> instance that the methods below read.\<close>

record formatter_obj =
  dim_order :: "string list"

definition default_dim_order :: "string list" where
  "default_dim_order =
     [''[substance]'', ''[mass]'', ''[current]'', ''[luminosity]'', ''[length]'', ''[]'',
      ''[time]'', ''[temperature]'']"

subsection \<open>\<open>_pretty_fmt_exponent\<close>\<close>

definition pretty_exponents :: "string list" where
  "pretty_exponents =
     [CHR 0xE2, CHR 0x81, CHR 0xB0] # [CHR 0xC2, CHR 0xB9] # [CHR 0xC2, CHR 0xB2]
     # [CHR 0xC2, CHR 0xB3] # [CHR 0xE2, CHR 0x81, CHR 0xB4] # [CHR 0xE2, CHR 0x81, CHR 0xB5]
     # [CHR 0xE2, CHR 0x81, CHR 0xB6] # [CHR 0xE2, CHR 0x81, CHR 0xB7]
     # [CHR 0xE2, CHR 0x81, CHR 0xB8] # [CHR 0xE2, CHR 0x81, CHR 0xB9] # []"

definition pretty_fmt_exponent :: "environment \<Rightarrow> number \<Rightarrow> string" where
  "pretty_fmt_exponent env num =
     (let ret = str_replace ''.'' [CHR 0xE2, CHR 0x8B, CHR 0x85]
                  (str_replace ''-'' [CHR 0xE2, CHR 0x81, CHR 0xBB] (format_n env num))
      in foldl (\<lambda>ret (d, p). str_replace [d] p ret) ret (zip ''0123456789'' pretty_exponents))"

subsection \<open>Decimal numerals\<close>

definition digit_char :: "nat \<Rightarrow> char" where
  "digit_char d = ''0123456789'' ! d"

function str_of_nat :: "nat \<Rightarrow> string" where
  "str_of_nat n = (if n < 10 then [digit_char n] else str_of_nat (n div 10) @ [digit_char (n mod 10)])"
  by pat_completeness auto
termination
  by (relation "measure id") auto

definition str_of_int :: "int \<Rightarrow> string" where
  "str_of_int i = (if i < 0 then CHR ''-'' # str_of_nat (nat (- i)) else str_of_nat (nat i))"

subsection \<open>\<open>Formatter.dim_sort\<close>\<close>

text \<open>
  \<open>cname_dims\<close> as the loop tests it: the dimensionality of the canonical name, and
  the synthetic token \<open>[]\<close> alone when that is empty.
\<close>

definition cname_dims :: "unit_registry \<Rightarrow> string \<Rightarrow> string set" where
  "cname_dims reg cname =
     (let dims = get_dimensionality reg cname in if dims = {} then {''[]''} else dims)"

fun dim_sort_loop ::
  "string list \<Rightarrow> unit_registry \<Rightarrow> (string \<rightharpoonup> item list) \<Rightarrow> item list \<Rightarrow>
   error + (string \<rightharpoonup> item list)" where
  "dim_sort_loop order reg ret_dict [] = Inr ret_dict"
| "dim_sort_loop order reg ret_dict ((unit_name, unit_exponent) # items) =
     (case get_name reg unit_name of
        None \<Rightarrow> dim_sort_loop order reg ret_dict items
      | Some cname \<Rightarrow>
          (if cname = [] then dim_sort_loop order reg ret_dict items
           else
             (case find (\<lambda>d. d \<in> cname_dims reg cname) order of
                None \<Rightarrow> Inl (NoRecognizedDimensions unit_name cname)
              | Some d \<Rightarrow>
                  dim_sort_loop order reg
                    (ret_dict(d \<mapsto>
                       (case ret_dict d of None \<Rightarrow> [] | Some l \<Rightarrow> l)
                       @ [(unit_name, unit_exponent)]))
                    items)))"

definition dim_sort ::
  "formatter_obj \<Rightarrow> item list \<Rightarrow> unit_registry option \<Rightarrow> error + item list" where
  "dim_sort self items registry =
     (case registry of
        None \<Rightarrow> Inr items
      | Some reg \<Rightarrow>
          (if length items \<le> 1 then Inr items
           else (case dim_sort_loop (dim_order self) reg Map.empty items of
                   Inl e \<Rightarrow> Inl e
                 | Inr ret_dict \<Rightarrow> Inr (concat (List.map_filter ret_dict (dim_order self))))))"

subsection \<open>\<open>Formatter.formatter\<close>\<close>

text \<open>
  The keyword arguments of \<open>formatter\<close>. The fields \<open>fmt_locale\<close> and \<open>sort_opt\<close> are
  the arguments \<open>locale\<close> and \<open>sort\<close>; a locale is given as the data that
  \<open>babel_parse\<close> finds for it.
\<close>

record formatter_args =
  as_ratio :: bool
  single_denominator :: bool
  product_fmt :: string
  division_fmt :: string
  power_fmt :: string
  parentheses_fmt :: string
  exp_call :: "number \<Rightarrow> string"
  fmt_locale :: "locale_data option"
  babel_length :: string
  babel_plural_form :: string
  sort_opt :: bool
  sort_dims :: bool
  registry :: "unit_registry option"

definition default_args :: "environment \<Rightarrow> formatter_args" where
  "default_args env =
     \<lparr>as_ratio = True, single_denominator = False, product_fmt = '' * '',
      division_fmt = '' / '', power_fmt = ''{} ** {}'', parentheses_fmt = ''({0})'',
      exp_call = format_n env, fmt_locale = None, babel_length = ''long'',
      babel_plural_form = ''one'', sort_opt = True, sort_dims = True, registry = None\<rparr>"

text \<open>
  The loop over the items reassigns \<open>division_fmt\<close>, \<open>power_fmt\<close> and \<open>exp_call\<close>
  when a unit is localised; their current values are the loop's state.
\<close>

record templates =
  cur_division_fmt :: string
  cur_power_fmt :: string
  cur_exp_call :: "number \<Rightarrow> string"

fun first_pattern :: "locale_data \<Rightarrow> string \<Rightarrow> string \<Rightarrow> string list \<Rightarrow> string option" where
  "first_pattern loc k plural [] = None"
| "first_pattern loc k plural (l # ls) =
     (case unit_patterns loc k l plural of
        None \<Rightarrow> first_pattern loc k plural ls
      | Some pat \<Rightarrow> Some pat)"

definition localize ::
  "environment \<Rightarrow> formatter_args \<Rightarrow> templates \<Rightarrow> string \<Rightarrow> number \<Rightarrow> string \<times> templates" where
  "localize env a t key val =
     (case fmt_locale a of
        None \<Rightarrow> (key, t)
      | Some loc \<Rightarrow>
          (if babel_length a = [] \<or> babel_plural_form a = [] then (key, t)
           else
             (case babel_units env key of
                None \<Rightarrow> (key, t)
              | Some k \<Rightarrow>
                  (let plural = (if \<bar>num_val val\<bar> \<le> 0 then ''one'' else babel_plural_form a);
                       other_lengths =
                         (if babel_length a \<notin> set (babel_lengths env)
                          then filter (\<lambda>l. babel_length a \<noteq> l) (rev (babel_lengths env))
                          else []);
                       key' =
                         (case first_pattern loc k plural (babel_length a # other_lengths) of
                            None \<Rightarrow> key
                          | Some pat \<Rightarrow> str_strip (str_replace ''{0}'' [] pat));
                       division_fmt' =
                         (case compound_per loc (babel_length a) of
                            None \<Rightarrow> cur_division_fmt t
                          | Some (PerStr s) \<Rightarrow> s
                          | Some (PerDict None) \<Rightarrow> cur_division_fmt t
                          | Some (PerDict (Some s)) \<Rightarrow> s)
                   in (key', \<lparr>cur_division_fmt = division_fmt', cur_power_fmt = ''{}{}'',
                             cur_exp_call = pretty_fmt_exponent env\<rparr>)))))"

text \<open>
  \<open>fun\<close> of the source is \<open>lambda x: exp_call(abs(x))\<close> when \<open>as_ratio\<close> holds, a
  closure that reads the current \<open>exp_call\<close>, and otherwise the \<open>exp_call\<close> that was
  passed in.
\<close>

definition render_fun :: "formatter_args \<Rightarrow> templates \<Rightarrow> number \<Rightarrow> string" where
  "render_fun a t x = (if as_ratio a then cur_exp_call t (num_abs x) else exp_call a x)"

definition add_term ::
  "formatter_args \<Rightarrow> templates \<Rightarrow> string \<Rightarrow> number \<Rightarrow> string list \<times> string list \<Rightarrow>
   error + string list \<times> string list" where
  "add_term a t key val terms =
     (case terms of (pos_terms, neg_terms) \<Rightarrow>
        (if num_val val = 1 then Inr (pos_terms @ [key], neg_terms)
         else if num_val val > 0 then
           (case py_format (cur_power_fmt t) [key, render_fun a t val] of
              Inl e \<Rightarrow> Inl e
            | Inr s \<Rightarrow> Inr (pos_terms @ [s], neg_terms))
         else if num_val val = - 1 \<and> as_ratio a then Inr (pos_terms, neg_terms @ [key])
         else
           (case py_format (cur_power_fmt t) [key, render_fun a t val] of
              Inl e \<Rightarrow> Inl e
            | Inr s \<Rightarrow> Inr (pos_terms, neg_terms @ [s]))))"

fun formatter_loop ::
  "environment \<Rightarrow> formatter_args \<Rightarrow> templates \<Rightarrow> string list \<times> string list \<Rightarrow> item list \<Rightarrow>
   error + templates \<times> string list \<times> string list" where
  "formatter_loop env a t terms [] = Inr (t, terms)"
| "formatter_loop env a t terms ((key, val) # items) =
     (case localize env a t key val of
        (key', t') \<Rightarrow>
          (case add_term a t' key' val terms of
             Inl e \<Rightarrow> Inl e
           | Inr terms' \<Rightarrow> formatter_loop env a t' terms' items))"

text \<open>
  \<open>sorted(items)\<close> compares the pairs: by name, then by exponent. It is stable, as
  \<open>sort_key\<close> is.
\<close>

definition py_sorted :: "item list \<Rightarrow> item list" where
  "py_sorted items = sort_key (\<lambda>(k, v). (k, num_val v)) items"

text \<open>The first part of \<open>formatter\<close>: sorting and the loop that builds the two lists.\<close>

definition formatter_terms ::
  "environment \<Rightarrow> formatter_obj \<Rightarrow> item list \<Rightarrow> formatter_args \<Rightarrow>
   error + templates \<times> string list \<times> string list" where
  "formatter_terms env self items a =
     (let items1 = (if sort_opt a then py_sorted items else items)
      in (case (if sort_dims a then dim_sort self items1 (registry a) else Inr items1) of
            Inl e \<Rightarrow> Inl e
          | Inr items2 \<Rightarrow>
              formatter_loop env a
                \<lparr>cur_division_fmt = division_fmt a, cur_power_fmt = power_fmt a,
                 cur_exp_call = exp_call a\<rparr>
                ([], []) items2))"

text \<open>The second part: the product, or the ratio of the two lists.\<close>

definition formatter_ratio ::
  "formatter_args \<Rightarrow> string \<Rightarrow> string list \<Rightarrow> string list \<Rightarrow> error + string" where
  "formatter_ratio a cur_division pos_terms neg_terms =
     (case join (product_fmt a) pos_terms of
        Inl e \<Rightarrow> Inl e
      | Inr p \<Rightarrow>
          (let pos_ret = (if p = [] then ''1'' else p)
           in if neg_terms = [] then Inr pos_ret
              else
                (case (if single_denominator a then
                         (case join (product_fmt a) neg_terms of
                            Inl e \<Rightarrow> Inl e
                          | Inr neg_ret \<Rightarrow>
                              (if length neg_terms > 1
                               then py_format (parentheses_fmt a) [neg_ret]
                               else Inr neg_ret))
                       else join cur_division neg_terms) of
                   Inl e \<Rightarrow> Inl e
                 | Inr neg_ret \<Rightarrow> join cur_division [pos_ret, neg_ret])))"

definition formatter ::
  "environment \<Rightarrow> formatter_obj \<Rightarrow> item list \<Rightarrow> formatter_args \<Rightarrow> error + string" where
  "formatter env self items a =
     (if items = [] then Inr []
      else
        (case formatter_terms env self items a of
           Inl e \<Rightarrow> Inl e
         | Inr (t, pos_terms, neg_terms) \<Rightarrow>
             (if \<not> as_ratio a then join (product_fmt a) (pos_terms @ neg_terms)
              else formatter_ratio a (cur_division_fmt t) pos_terms neg_terms)))"

subsection \<open>\<open>Formatter.siunitx_format_unit\<close>\<close>

definition bs :: char where
  "bs = CHR 0x5C"

text \<open>
  \<open>f"{x:.3f}"\<close>: the decimal numeral of \<open>x\<close> with three digits after the point,
  correctly rounded, ties to even.
\<close>

definition round_half_even :: "rat \<Rightarrow> int" where
  "round_half_even x =
     (let f = \<lfloor>x\<rfloor>; d = x - of_int f
      in if d < 1 / 2 then f else if 1 / 2 < d then f + 1 else if even f then f else f + 1)"

definition pad3 :: "string \<Rightarrow> string" where
  "pad3 ds = replicate (3 - length ds) CHR ''0'' @ ds"

definition format_3f :: "rat \<Rightarrow> string" where
  "format_3f x =
     (let n = nat (round_half_even (\<bar>x\<bar> * 1000))
      in (if x < 0 then ''-'' else []) @ str_of_nat (n div 1000) @ ''.'' @ pad3 (str_of_nat (n mod 1000)))"

definition str_rstrip :: "string \<Rightarrow> string \<Rightarrow> string" where
  "str_rstrip chars s = rev (dropWhile (\<lambda>c. c \<in> set chars) (rev s))"

fun is_integer :: "number \<Rightarrow> bool" where
  "is_integer (PyInt i) = True"
| "is_integer (PyFloat r) = (of_int \<lfloor>r\<rfloor> = r)"

fun int_of :: "number \<Rightarrow> int" where
  "int_of (PyInt i) = i"
| "int_of (PyFloat r) = (if 0 \<le> r then \<lfloor>r\<rfloor> else \<lceil>r\<rceil>)"

definition tothe :: "number \<Rightarrow> string" where
  "tothe pw =
     (if is_integer pw then
        (if num_val pw = 1 then []
         else if num_val pw = 2 then bs # ''squared''
         else if num_val pw = 3 then bs # ''cubed''
         else bs # ''tothe{'' @ str_of_int (int_of pw) @ ''}'')
      else str_rstrip ''0'' (bs # ''tothe{'' @ format_3f (num_val pw) @ ''}''))"

text \<open>
  The inner loop over the prefixes of the registry: every non-empty prefix that the unit
  name starts with is cut off the name, and the last one cut is kept.
\<close>

fun strip_prefixes :: "string list \<Rightarrow> string option \<times> string \<Rightarrow> string option \<times> string" where
  "strip_prefixes [] st = st"
| "strip_prefixes (p # ps) (pfx, unit_name) =
     (if p \<noteq> [] \<and> prefix p unit_name
      then strip_prefixes ps (Some p, drop (length p) unit_name)
      else strip_prefixes ps (pfx, unit_name))"

definition siunitx_pieces :: "string list \<Rightarrow> string \<Rightarrow> number \<Rightarrow> string list" where
  "siunitx_pieces pfxs unit_name pw =
     (case strip_prefixes pfxs (None, unit_name) of
        (pfx, unit_name') \<Rightarrow>
          (if num_val pw < 0 then [bs # ''per''] else [])
          @ (case pfx of None \<Rightarrow> [] | Some p \<Rightarrow> [bs # p])
          @ [bs # unit_name']
          @ [tothe (num_abs pw)])"

fun siunitx_loop ::
  "string list \<Rightarrow> string list \<times> string list \<Rightarrow> item list \<Rightarrow> string list \<times> string list" where
  "siunitx_loop pfxs (lpos, lneg) [] = (lpos, lneg)"
| "siunitx_loop pfxs (lpos, lneg) ((unit_name, pw) # units) =
     (if num_val pw \<ge> 0
      then siunitx_loop pfxs (lpos @ siunitx_pieces pfxs unit_name pw, lneg) units
      else siunitx_loop pfxs (lpos, lneg @ siunitx_pieces pfxs unit_name pw) units)"

definition siunitx_format_unit :: "item list \<Rightarrow> unit_registry \<Rightarrow> string" where
  "siunitx_format_unit units reg =
     (case siunitx_loop (prefixes reg) ([], []) (py_sorted units) of
        (lpos, lneg) \<Rightarrow> concat lpos @ concat lneg)"

subsection \<open>The format functions of the style classes\<close>

text \<open>
  \<open>**options\<close>: the keyword arguments of \<open>formatter\<close> that the format functions
  leave open, each given or not. A keyword outside this record is not modelled.
\<close>

record options =
  opt_exp_call :: "(number \<Rightarrow> string) option"
  opt_locale :: "locale_data option"
  opt_babel_length :: "string option"
  opt_babel_plural_form :: "string option"
  opt_sort :: "bool option"
  opt_sort_dims :: "bool option"

definition no_options :: options where
  "no_options =
     \<lparr>opt_exp_call = None, opt_locale = None, opt_babel_length = None,
      opt_babel_plural_form = None, opt_sort = None, opt_sort_dims = None\<rparr>"

definition with_options :: "options \<Rightarrow> formatter_args \<Rightarrow> formatter_args" where
  "with_options opts a =
     a\<lparr>exp_call := (case opt_exp_call opts of None \<Rightarrow> exp_call a | Some f \<Rightarrow> f),
       fmt_locale := opt_locale opts,
       babel_length := (case opt_babel_length opts of None \<Rightarrow> babel_length a | Some l \<Rightarrow> l),
       babel_plural_form :=
         (case opt_babel_plural_form opts of None \<Rightarrow> babel_plural_form a | Some f \<Rightarrow> f),
       sort_opt := (case opt_sort opts of None \<Rightarrow> sort_opt a | Some b \<Rightarrow> b),
       sort_dims := (case opt_sort_dims opts of None \<Rightarrow> sort_dims a | Some b \<Rightarrow> b)\<rparr>"

definition format_pretty ::
  "environment \<Rightarrow> formatter_obj \<Rightarrow> item list \<Rightarrow> unit_registry option \<Rightarrow> options \<Rightarrow>
   error + string" where
  "format_pretty env self unit reg opts =
     (if opt_exp_call opts \<noteq> None then Inl (DuplicateKeyword ''exp_call'')
      else formatter env self unit
             (with_options opts
                ((default_args env)
                   \<lparr>as_ratio := True, single_denominator := False,
                    product_fmt := [CHR 0xC2, CHR 0xB7], division_fmt := ''/'',
                    power_fmt := ''{}{}'', parentheses_fmt := ''({})'',
                    exp_call := pretty_fmt_exponent env, registry := reg\<rparr>)))"

definition latex_escape :: "string \<Rightarrow> string" where
  "latex_escape s =
     concat (map (\<lambda>c. if c \<in> set ''&%$#_{}'' then [bs, c] else [c])
       (str_replace ''^'' (bs # ''textasciicircum '')
          (str_replace ''~'' (bs # ''textasciitilde '')
             (str_replace [bs] (bs # ''textbackslash '') s))))"

definition latex_formatter ::
  "environment \<Rightarrow> formatter_obj \<Rightarrow> item list \<Rightarrow> unit_registry option \<Rightarrow> options \<Rightarrow>
   error + string" where
  "latex_formatter env self unit reg opts =
     (case dim_sort self unit reg of
        Inl e \<Rightarrow> Inl e
      | Inr sorted_units \<Rightarrow>
          (if opt_sort opts \<noteq> None then Inl (DuplicateKeyword ''sort'')
           else if opt_sort_dims opts \<noteq> None then Inl (DuplicateKeyword ''sort_dims'')
           else
             (case formatter env self
                     (map (\<lambda>(u, p). (bs # ''mathrm{'' @ latex_escape u @ ''}'', p)) sorted_units)
                     (with_options opts
                        ((default_args env)
                           \<lparr>as_ratio := True, single_denominator := True,
                            product_fmt := '' '' @ bs # ''cdot '',
                            division_fmt := bs # ''frac[{}][{}]'',
                            power_fmt := ''{}^[{}]'',
                            parentheses_fmt := bs # ''left({}'' @ bs # ''right)'',
                            sort_opt := False, sort_dims := False, registry := reg\<rparr>)) of
                Inl e \<Rightarrow> Inl e
              | Inr formatted \<Rightarrow>
                  Inr (str_replace '']'' ''}'' (str_replace ''['' ''{'' formatted)))))"

definition format_latex_siunitx ::
  "environment \<Rightarrow> formatter_obj \<Rightarrow> item list \<Rightarrow> unit_registry option \<Rightarrow> options \<Rightarrow>
   error + string" where
  "format_latex_siunitx env self unit reg opts =
     (case reg of
        None \<Rightarrow> Inl SiunitxWithoutRegistry
      | Some r \<Rightarrow> Inr (bs # ''si[]{'' @ siunitx_format_unit unit r @ ''}''))"

definition format_html ::
  "environment \<Rightarrow> formatter_obj \<Rightarrow> item list \<Rightarrow> unit_registry option \<Rightarrow> options \<Rightarrow>
   error + string" where
  "format_html env self unit reg opts =
     formatter env self unit
       (with_options opts
          ((default_args env)
             \<lparr>as_ratio := True, single_denominator := True, product_fmt := '' '',
              division_fmt := ''{}/{}'', power_fmt := ''{}<sup>{}</sup>'',
              parentheses_fmt := ''({})'', registry := reg\<rparr>))"

definition format_default ::
  "environment \<Rightarrow> formatter_obj \<Rightarrow> item list \<Rightarrow> unit_registry option \<Rightarrow> options \<Rightarrow>
   error + string" where
  "format_default env self unit reg opts =
     formatter env self unit
       (with_options opts
          ((default_args env)
             \<lparr>as_ratio := True, single_denominator := False, product_fmt := '' * '',
              division_fmt := '' / '', power_fmt := ''{} ** {}'',
              parentheses_fmt := ''({})'', registry := reg\<rparr>))"

definition format_compact ::
  "environment \<Rightarrow> formatter_obj \<Rightarrow> item list \<Rightarrow> unit_registry option \<Rightarrow> options \<Rightarrow>
   error + string" where
  "format_compact env self unit reg opts =
     formatter env self unit
       (with_options opts
          ((default_args env)
             \<lparr>as_ratio := True, single_denominator := False, product_fmt := ''*'',
              division_fmt := ''/'', power_fmt := ''{}**{}'',
              parentheses_fmt := ''({})'', registry := reg\<rparr>))"

subsection \<open>The registry of formats: \<open>_FORMATTERS\<close>, \<open>register_unit_format\<close>, \<open>format_unit\<close>\<close>

text \<open>
  A registered callable is a function \<open>f(unit, registry, **options)\<close>, as the
  docstring of \<open>register_unit_format\<close> asks for, or a method
  \<open>f(self, unit, registry, **options)\<close>, as this module registers. The dictionary
  \<open>_FORMATTERS\<close> is the list of its entries in insertion order; it is the state that
  registration changes.
\<close>

datatype renderer =
    Function "item list \<Rightarrow> unit_registry option \<Rightarrow> options \<Rightarrow> error + string"
  | Method "formatter_obj \<Rightarrow> item list \<Rightarrow> unit_registry option \<Rightarrow> options \<Rightarrow> error + string"

type_synonym formatters = "(string \<times> renderer) list"

text \<open>
  \<open>register_unit_format name\<close> is the wrapper that the source returns; applied to
  \<open>func\<close> it raises or stores. The result is the outcome and the dictionary after
  the call.
\<close>

definition register_unit_format ::
  "string \<Rightarrow> renderer \<Rightarrow> formatters \<Rightarrow> (error + unit) \<times> formatters" where
  "register_unit_format name func fs =
     (if name \<in> set (map fst fs) then (Inl (FormatExists name), fs)
      else (Inr (), fs @ [(name, func)]))"

text \<open>The dictionary once the module is imported: six registrations by decorator.\<close>

definition module_formatters :: "environment \<Rightarrow> formatters" where
  "module_formatters env =
     [(''P'', Method (format_pretty env)), (''L'', Method (latex_formatter env)),
      (''Lx'', Method (format_latex_siunitx env)), (''H'', Method (format_html env)),
      (''D'', Method (format_default env)), (''C'', Method (format_compact env))]"

definition endswith :: "string \<Rightarrow> string \<Rightarrow> bool" where
  "endswith s suf = suffix suf s"

text \<open>
  The function \<open>format_unit\<close> of the module. \<open>kw_registry\<close> is a keyword \<open>registry\<close>
  among its \<open>**options\<close>, given or not; the call \<open>fmt(unit, registry=None, **options)\<close>
  then has the keyword twice. A method called this way lacks its argument \<open>unit\<close>.
\<close>

definition format_unit ::
  "formatters \<Rightarrow> item list \<Rightarrow> string \<Rightarrow> unit_registry option option \<Rightarrow> options \<Rightarrow>
   error + string" where
  "format_unit fs unit spec kw_registry opts =
     (if unit = [] then
        (if endswith spec ''%'' then Inr [] else Inr ''dimensionless'')
      else
        (let spec = (if spec = [] then ''D'' else spec)
         in (case map_of fs spec of
               None \<Rightarrow> Inl (UnknownConversion spec)
             | Some fmt \<Rightarrow>
                 (if kw_registry \<noteq> None then Inl (DuplicateKeyword ''registry'')
                  else (case fmt of
                          Function f \<Rightarrow> f unit None opts
                        | Method m \<Rightarrow> Inl (MissingArgument ''unit''))))))"

text \<open>
  The method \<open>Formatter.format_unit\<close>: the call is
  \<open>fmt(self, unit, registry=registry, **options)\<close>, which gives a function its argument
  \<open>registry\<close> twice.
\<close>

definition formatter_format_unit ::
  "formatters \<Rightarrow> formatter_obj \<Rightarrow> item list \<Rightarrow> string \<Rightarrow> unit_registry option \<Rightarrow> options \<Rightarrow>
   error + string" where
  "formatter_format_unit fs self unit spec reg opts =
     (if unit = [] then
        (if endswith spec ''%'' then Inr [] else Inr ''dimensionless'')
      else
        (let spec = (if spec = [] then ''D'' else spec)
         in (case map_of fs spec of
               None \<Rightarrow> Inl (UnknownConversion spec)
             | Some fmt \<Rightarrow>
                 (case fmt of
                    Method m \<Rightarrow> m self unit reg opts
                  | Function f \<Rightarrow> Inl (DuplicateKeyword ''registry'')))))"

subsection \<open>Splitting a format spec\<close>

text \<open>
  \<open>sorted(_FORMATTERS.keys(), key=len, reverse=True)\<close>: the longer names first, names
  of one length in the order of registration.
\<close>

definition known_flags :: "formatters \<Rightarrow> string list" where
  "known_flags fs = sort_key (\<lambda>flag. - int (length flag)) (map fst fs)"

text \<open>
  \<open>"".join(flag_re.findall(spec))\<close> for the alternation of the flags: at each position
  the first flag of the list that matches is taken and the scan goes on behind it; a
  position where none matches is passed over. An empty flag contributes an empty match
  and hides no other flag, so that it is left out. The flags are read as plain text: a
  name with a character special to regular expressions is not modelled.
\<close>

function findall_joined :: "string list \<Rightarrow> string \<Rightarrow> string" where
  "findall_joined flags s =
     (case s of
        [] \<Rightarrow> []
      | c # cs \<Rightarrow>
          (case find (\<lambda>flag. flag \<noteq> [] \<and> prefix flag s) flags of
             None \<Rightarrow> findall_joined flags cs
           | Some flag \<Rightarrow> flag @ findall_joined flags (drop (length flag) s)))"
  by pat_completeness auto
termination
  by (relation "measure (\<lambda>(flags, s). length s)") (auto simp: find_Some_iff)

definition extract_custom_flags :: "formatters \<Rightarrow> string \<Rightarrow> string" where
  "extract_custom_flags fs spec =
     (if spec = [] then [] else findall_joined (known_flags fs @ [''~'']) spec)"

definition remove_custom_flags :: "formatters \<Rightarrow> string \<Rightarrow> string" where
  "remove_custom_flags fs spec =
     foldl (\<lambda>spec flag. if flag \<noteq> [] then str_replace flag [] spec else spec)
       spec (known_flags fs @ [''~''])"

datatype deprecation = NoUnitFormatter | NoMagnitudeFormatter

text \<open>
  \<open>split_format\<close> returns the two sub-specs; the third component lists the
  deprecation warnings it issues. \<open>separate_format_defaults\<close> is \<open>True\<close>, \<open>False\<close>
  or \<open>None\<close>.
\<close>

definition split_format ::
  "formatters \<Rightarrow> string \<Rightarrow> string \<Rightarrow> bool option \<Rightarrow> string \<times> string \<times> deprecation list" where
  "split_format fs spec default_spec separate_format_defaults =
     (let mspec = remove_custom_flags fs spec;
          uspec = extract_custom_flags fs spec;
          default_mspec = remove_custom_flags fs default_spec;
          default_uspec = extract_custom_flags fs default_spec
      in if separate_format_defaults = Some False \<or> separate_format_defaults = None then
           (if spec \<noteq> [] \<and> separate_format_defaults = None then
              (mspec, uspec,
               (if uspec = [] \<and> default_uspec \<noteq> [] then [NoUnitFormatter] else [])
               @ (if mspec = [] \<and> default_mspec \<noteq> [] then [NoMagnitudeFormatter] else []))
            else if spec = [] then (default_mspec, default_uspec, [])
            else (mspec, uspec, []))
         else
           (if mspec = [] then default_mspec else mspec,
            if uspec = [] then default_uspec else uspec, []))"

text \<open>
  The alternatives of \<open>flag_re\<close> once the module is imported: its six format names,
  the longer one first, and the flag \<open>~\<close>.
\<close>

definition module_flags :: "string list" where
  "module_flags = [''Lx'', ''P'', ''L'', ''H'', ''D'', ''C'', ''~'']"

subsection \<open>The two lists of terms, stated per item\<close>

text \<open>
  For comparison with the loop: the items as the loop sees them, each with its (possibly
  localised) name and with the templates that are current when it is classified.
\<close>

fun localize_all ::
  "environment \<Rightarrow> formatter_args \<Rightarrow> templates \<Rightarrow> item list \<Rightarrow>
   (string \<times> number \<times> templates) list" where
  "localize_all env a t [] = []"
| "localize_all env a t ((key, val) # items) =
     (case localize env a t key val of
        (key', t') \<Rightarrow> (key', val, t') # localize_all env a t' items)"

text \<open>
  The text of one term: the bare unit token for the exponent 1, and for the exponent -1
  under \<open>as_ratio\<close>; otherwise the power template applied to the unit token and the
  rendered exponent, which is rendered as it is when positive and else as its absolute
  value under \<open>as_ratio\<close>.
\<close>

definition term_text :: "formatter_args \<Rightarrow> string \<times> number \<times> templates \<Rightarrow> error + string" where
  "term_text a x =
     (case x of (unit, exponent, t) \<Rightarrow>
        (let render = (if as_ratio a then cur_exp_call t else exp_call a)
         in if num_val exponent = 1 then Inr unit
            else if 0 < num_val exponent then
              py_format (cur_power_fmt t) [unit, render exponent]
            else if num_val exponent = - 1 \<and> as_ratio a then Inr unit
            else py_format (cur_power_fmt t)
                   [unit, render (if as_ratio a then num_abs exponent else exponent)]))"

subsection \<open>Units that \<open>dim_sort\<close> skips or rejects\<close>



subsection \<open>Concrete collaborators for the examples\<close>

text \<open>
  An environment without babel tables. Its \<open>format_n\<close> is Python's \<open>"{:n}".format\<close>
  on the integers and on the float 0.5, the only float that the examples below format.
\<close>

fun example_format_n :: "number \<Rightarrow> string" where
  "example_format_n (PyInt i) = str_of_int i"
| "example_format_n (PyFloat r) = (if r = 1 / 2 then ''0.5'' else [])"

definition example_env :: environment where
  "example_env =
     \<lparr>format_n = example_format_n, babel_units = (\<lambda>k. None), babel_lengths = []\<rparr>"

text \<open>
  A registry for the examples: \<open>m\<close> is an alias of \<open>meter\<close>, \<open>ghost\<close> resolves to the
  empty name, \<open>radian\<close> is dimensionless and \<open>bit\<close> has a dimension outside the default
  order.
\<close>

definition example_registry :: unit_registry where
  "example_registry =
     \<lparr>get_name = (\<lambda>u. if u = ''m'' then Some ''meter''
                      else if u = ''ghost'' then Some [] else Some u),
      get_dimensionality =
        (\<lambda>c. if c = ''meter'' then {''[length]''}
              else if c = ''second'' then {''[time]''}
              else if c = ''newton'' then {''[mass]'', ''[length]'', ''[time]''}
              else if c = ''bit'' then {''[information]''}
              else {}),
      prefixes = [''kilo'', ''milli'', ''micro'']\<rparr>"

definition default_formatter_obj :: formatter_obj where
  "default_formatter_obj = \<lparr>dim_order = default_dim_order\<rparr>"

section \<open>Properties\<close>

text \<open>
  C6: for every template, with or without positional placeholders, \<open>_join\<close> of the
  empty list is the empty string and \<open>_join\<close> of a one-element list is that element.
\<close>

theorem join_empty_and_singleton:
  "join fmt [] = Inr [] \<and> join fmt [x] = Inr x"
  by (simp add: join_def)

lemmas format_eval =
  py_format_def emit_def arg_at_def is_digit_def nat_of_digits_def digit_val_def

lemmas formatter_eval =
  formatter_def formatter_terms_def py_sorted_def dim_sort_def cname_dims_def default_args_def
  localize_def add_term_def render_fun_def formatter_ratio_def join_def format_eval

text \<open>
  C2 (as stated): \<open>formatter\<close> on (meter, 1), (second, -1), (gram, -1) with
  \<open>single_denominator\<close>, the default templates and every other option at its
  default would return \<open>meter / (second * gram)\<close>. It does not: \<open>sort\<close> defaults to
  true, so the items are sorted by name first.
\<close>

theorem formatter_example_not_input_order:
  "formatter example_env default_formatter_obj
     [(''meter'', PyInt 1), (''second'', PyInt (- 1)), (''gram'', PyInt (- 1))]
     ((default_args example_env)\<lparr>single_denominator := True, parentheses_fmt := ''({})''\<rparr>)
   \<noteq> Inr ''meter / (second * gram)''"
  by (simp add: formatter_eval example_env_def default_formatter_obj_def)

text \<open>
  C2 (amended): with every other option at its default the call returns
  \<open>meter / (gram * second)\<close>, the denominator in alphabetical order; the string
  \<open>meter / (second * gram)\<close> is what it returns when \<open>sort\<close> is false.
\<close>

theorem formatter_example_single_denominator:
  "formatter env self
     [(''meter'', PyInt 1), (''second'', PyInt (- 1)), (''gram'', PyInt (- 1))]
     ((default_args env)\<lparr>single_denominator := True, parentheses_fmt := ''({})''\<rparr>)
   = Inr ''meter / (gram * second)''
   \<and> formatter env self
     [(''meter'', PyInt 1), (''second'', PyInt (- 1)), (''gram'', PyInt (- 1))]
     ((default_args env)\<lparr>single_denominator := True, parentheses_fmt := ''({})'',
        sort_opt := False\<rparr>)
   = Inr ''meter / (second * gram)''"
  by (simp add: formatter_eval)

subsection \<open>The classification of the items\<close>

lemma num_abs_pos: "0 < num_val v \<Longrightarrow> num_abs v = v"
  by (cases v) auto

lemma add_term_Inr:
  assumes "add_term a t k v (pos, neg) = Inr (pos', neg')"
  shows "\<exists>s. term_text a (k, v, t) = Inr s \<and>
             (if 0 < num_val v then pos' = pos @ [s] \<and> neg' = neg
              else pos' = pos \<and> neg' = neg @ [s])"
  using assms
  by (auto simp: add_term_def term_text_def render_fun_def num_abs_pos
           split: if_splits sum.splits)

text \<open>
  C1 (as stated): an exponent strictly between 0 and 1 would put its term in the
  negative list. The loop tests \<open>value > 0\<close>, not \<open>value > 1\<close>: the exponent 0.5 puts
  \<open>meter ** 0.5\<close> in the positive list and leaves the negative list empty.
\<close>

theorem formatter_loop_half_is_positive:
  "formatter_loop example_env (default_args example_env)
     \<lparr>cur_division_fmt = '' / '', cur_power_fmt = ''{} ** {}'',
      cur_exp_call = example_format_n\<rparr>
     ([], []) [(''meter'', PyFloat (1 / 2))]
   = Inr (\<lparr>cur_division_fmt = '' / '', cur_power_fmt = ''{} ** {}'',
           cur_exp_call = example_format_n\<rparr>,
          [''meter ** 0.5''], [])"
  by (simp add: formatter_eval example_env_def)

text \<open>
  C1 (amended): when the loop of \<open>formatter\<close> returns, the positive list has gained,
  in order, the terms of the items with an exponent above 0, and the negative list the
  terms of all other items. The term of an item is the bare unit token when the exponent
  is 1, \<open>power_fmt.format(unit, render(exponent))\<close> for any other exponent above 0
  (fractional ones between 0 and 1 included), the bare unit token when the exponent is
  -1 and \<open>as_ratio\<close> holds, and
  \<open>power_fmt.format(unit, render(|exponent| if as_ratio else exponent))\<close> otherwise.
\<close>

theorem formatter_loop_classifies:
  assumes "formatter_loop env a t (pos, neg) items = Inr (t', pos', neg')"
  shows "map Inr pos' = map Inr pos @ map (term_text a)
           (filter (\<lambda>(u, e, t). 0 < num_val e) (localize_all env a t items))
       \<and> map Inr neg' = map Inr neg @ map (term_text a)
           (filter (\<lambda>(u, e, t). \<not> 0 < num_val e) (localize_all env a t items))"
  using assms
proof (induction items arbitrary: t pos neg)
  case Nil
  then show ?case by simp
next
  case (Cons it items)
  obtain k v where it: "it = (k, v)" by (cases it)
  obtain k1 t1 where loc: "localize env a t k v = (k1, t1)"
    by (cases "localize env a t k v")
  from Cons.prems it loc obtain pos1 neg1 where
    add: "add_term a t1 k1 v (pos, neg) = Inr (pos1, neg1)" and
    rest: "formatter_loop env a t1 (pos1, neg1) items = Inr (t', pos', neg')"
    by (auto split: sum.splits)
  from add_term_Inr[OF add] obtain s where
    s: "term_text a (k1, v, t1) = Inr s" and
    placed: "if 0 < num_val v then pos1 = pos @ [s] \<and> neg1 = neg
             else pos1 = pos \<and> neg1 = neg @ [s]"
    by blast
  from Cons.IH[OF rest] placed s show ?case
    by (auto simp: it loc split: if_splits)
qed

theorem formatter_loop_classifies_witness:
  "formatter_loop example_env (default_args example_env)
     \<lparr>cur_division_fmt = '' / '', cur_power_fmt = ''{} ** {}'',
      cur_exp_call = example_format_n\<rparr>
     ([], []) [(''meter'', PyInt 1), (''second'', PyInt (- 2)), (''gram'', PyFloat (1 / 2))]
   = Inr (\<lparr>cur_division_fmt = '' / '', cur_power_fmt = ''{} ** {}'',
           cur_exp_call = example_format_n\<rparr>,
          [''meter'', ''gram ** 0.5''], [''second ** 2''])
   \<and> map Inr [''meter'', ''gram ** 0.5''] =
       map (term_text (default_args example_env))
         (filter (\<lambda>(u, e, t). 0 < num_val e)
            (localize_all example_env (default_args example_env)
               \<lparr>cur_division_fmt = '' / '', cur_power_fmt = ''{} ** {}'',
                cur_exp_call = example_format_n\<rparr>
               [(''meter'', PyInt 1), (''second'', PyInt (- 2)), (''gram'', PyFloat (1 / 2))]))"
proof -
  have h: "formatter_loop example_env (default_args example_env)
     \<lparr>cur_division_fmt = '' / '', cur_power_fmt = ''{} ** {}'',
      cur_exp_call = example_format_n\<rparr>
     ([], []) [(''meter'', PyInt 1), (''second'', PyInt (- 2)), (''gram'', PyFloat (1 / 2))]
   = Inr (\<lparr>cur_division_fmt = '' / '', cur_power_fmt = ''{} ** {}'',
           cur_exp_call = example_format_n\<rparr>,
          [''meter'', ''gram ** 0.5''], [''second ** 2''])"
    by (simp add: formatter_eval example_env_def str_of_int_def digit_char_def)
  from formatter_loop_classifies[OF h] h show ?thesis by simp
qed

subsection \<open>The product form\<close>

lemma localize_division_irrelevant:
  assumes "cur_power_fmt t' = cur_power_fmt t" "cur_exp_call t' = cur_exp_call t"
  shows "fst (localize env (a\<lparr>division_fmt := d\<rparr>) t' k v) = fst (localize env a t k v)
       \<and> cur_power_fmt (snd (localize env (a\<lparr>division_fmt := d\<rparr>) t' k v))
           = cur_power_fmt (snd (localize env a t k v))
       \<and> cur_exp_call (snd (localize env (a\<lparr>division_fmt := d\<rparr>) t' k v))
           = cur_exp_call (snd (localize env a t k v))"
  using assms by (auto simp: localize_def Let_def split: option.splits per_entry.splits)

lemma add_term_division_irrelevant:
  assumes "cur_power_fmt t' = cur_power_fmt t" "cur_exp_call t' = cur_exp_call t"
  shows "add_term (a\<lparr>division_fmt := d\<rparr>) t' k v terms = add_term a t k v terms"
  using assms by (cases terms) (simp add: add_term_def render_fun_def)

lemma formatter_loop_division_irrelevant:
  assumes "cur_power_fmt t' = cur_power_fmt t" "cur_exp_call t' = cur_exp_call t"
  shows "map_sum id snd (formatter_loop env (a\<lparr>division_fmt := d\<rparr>) t' terms items)
       = map_sum id snd (formatter_loop env a t terms items)"
  using assms
proof (induction items arbitrary: t t' terms)
  case Nil
  then show ?case by simp
next
  case (Cons it items)
  obtain k v where it: "it = (k, v)" by (cases it)
  obtain k1 t1 where loc: "localize env a t k v = (k1, t1)"
    by (cases "localize env a t k v")
  obtain k2 t2 where loc': "localize env (a\<lparr>division_fmt := d\<rparr>) t' k v = (k2, t2)"
    by (cases "localize env (a\<lparr>division_fmt := d\<rparr>) t' k v")
  from localize_division_irrelevant[OF Cons.prems, where env=env and a=a and d=d and k=k and v=v]
    loc loc'
  have k: "k2 = k1" and p: "cur_power_fmt t2 = cur_power_fmt t1"
    and e: "cur_exp_call t2 = cur_exp_call t1" by simp_all
  have add: "add_term (a\<lparr>division_fmt := d\<rparr>) t2 k1 v terms = add_term a t1 k1 v terms"
    by (rule add_term_division_irrelevant[OF p e])
  show ?case
    using Cons.IH[OF p e] by (simp add: it loc loc' k add split: sum.splits)
qed

text \<open>
  C4 (as stated): with \<open>as_ratio\<close> false the output would contain no occurrence of
  the division template. It can: the product template may itself be the division
  template. Here the output is \<open>a\<close>, the division template, \<open>b\<close>.
\<close>

theorem formatter_product_contains_division_text:
  "formatter example_env default_formatter_obj [(''a'', PyInt 1), (''b'', PyInt 1)]
     ((default_args example_env)\<lparr>as_ratio := False, product_fmt := '' / ''\<rparr>)
   = Inr (''a'' @ division_fmt (default_args example_env) @ ''b'')"
  by (simp add: formatter_eval example_env_def default_formatter_obj_def)

text \<open>
  C4 (amended): for every non-empty list of items and every option bundle with
  \<open>as_ratio\<close> false, the output of \<open>formatter\<close> is
  \<open>join(product_fmt, pos_terms + neg_terms)\<close>, and \<open>division_fmt\<close> is never applied:
  the output is the same whatever the division template is.
\<close>

theorem formatter_product_ignores_division:
  assumes "\<not> as_ratio a" and "items \<noteq> []"
  shows "formatter env self items (a\<lparr>division_fmt := d\<rparr>) = formatter env self items a
       \<and> formatter env self items a =
           (case formatter_terms env self items a of
              Inl e \<Rightarrow> Inl e
            | Inr (t, pos_terms, neg_terms) \<Rightarrow> join (product_fmt a) (pos_terms @ neg_terms))"
proof -
  let ?t = "\<lparr>cur_division_fmt = division_fmt a, cur_power_fmt = power_fmt a,
             cur_exp_call = exp_call a\<rparr>"
  let ?t' = "\<lparr>cur_division_fmt = d, cur_power_fmt = power_fmt a,
             cur_exp_call = exp_call a\<rparr>"
  have "map_sum id snd (formatter_terms env self items (a\<lparr>division_fmt := d\<rparr>))
      = map_sum id snd (formatter_terms env self items a)"
    using formatter_loop_division_irrelevant
            [where t'="?t'" and t="?t" and env=env and a=a and d=d and terms="([], [])"]
    by (simp add: formatter_terms_def Let_def split: sum.splits)
  then have "formatter env self items (a\<lparr>division_fmt := d\<rparr>) = formatter env self items a"
    using assms by (auto simp: formatter_def split: sum.splits)
  moreover have "formatter env self items a =
           (case formatter_terms env self items a of
              Inl e \<Rightarrow> Inl e
            | Inr (t, pos_terms, neg_terms) \<Rightarrow> join (product_fmt a) (pos_terms @ neg_terms))"
    using assms by (auto simp: formatter_def split: sum.splits)
  ultimately show ?thesis by simp
qed

theorem formatter_product_ignores_division_witness:
  "\<not> as_ratio ((default_args example_env)\<lparr>as_ratio := False\<rparr>)
   \<and> [(''meter'', PyInt 1), (''second'', PyInt (- 2))] \<noteq> []
   \<and> formatter example_env default_formatter_obj
       [(''meter'', PyInt 1), (''second'', PyInt (- 2))]
       ((default_args example_env)\<lparr>as_ratio := False, division_fmt := ''/''\<rparr>)
     = formatter example_env default_formatter_obj
       [(''meter'', PyInt 1), (''second'', PyInt (- 2))]
       ((default_args example_env)\<lparr>as_ratio := False\<rparr>)
   \<and> formatter example_env default_formatter_obj
       [(''meter'', PyInt 1), (''second'', PyInt (- 2))]
       ((default_args example_env)\<lparr>as_ratio := False\<rparr>)
     = Inr ''meter * second ** -2''"
proof -
  have a: "\<not> as_ratio ((default_args example_env)\<lparr>as_ratio := False\<rparr>)" by simp
  have i: "[(''meter'', PyInt 1), (''second'', PyInt (- 2))] \<noteq> []" by simp
  have v: "formatter example_env default_formatter_obj
       [(''meter'', PyInt 1), (''second'', PyInt (- 2))]
       ((default_args example_env)\<lparr>as_ratio := False\<rparr>)
     = Inr ''meter * second ** -2''"
    by (simp add: formatter_eval example_env_def default_formatter_obj_def
          str_of_int_def digit_char_def)
  from formatter_product_ignores_division[OF a i, of example_env default_formatter_obj "''/''"] v
  show ?thesis by simp
qed

subsection \<open>Sorting by dimension\<close>








subsection \<open>The siunitx power suffix\<close>

text \<open>
  C3: for a non-integer exponent \<open>siunitx_format_unit\<close> should emit \<open>\tothe{x.xxx}\<close>
  with the trailing zeros trimmed. The source applies \<open>rstrip("0")\<close> to the whole
  suffix, which ends with the closing brace, so nothing is trimmed: for the exponent 0.5
  the code emits \<open>\meter\tothe{0.500}\<close>, not \<open>\meter\tothe{0.5}\<close>.
\<close>

theorem siunitx_half_power_keeps_zeros:
  "siunitx_format_unit [(''meter'', PyFloat (1 / 2))] example_registry
     = bs # ''meter'' @ bs # ''tothe{0.500}''
   \<and> siunitx_format_unit [(''meter'', PyFloat (1 / 2))] example_registry
     \<noteq> bs # ''meter'' @ bs # ''tothe{0.5}''"
  by code_simp

subsection \<open>The registry of formats\<close>

text \<open>
  C8: applying the wrapper of \<open>register_unit_format\<close> to a name that is already
  registered raises the error for an existing format and leaves the dictionary, and so
  the renderer registered under that name, unchanged.
\<close>

theorem register_existing_format_raises:
  assumes "map_of fs name = Some f"
  shows "register_unit_format name g fs = (Inl (FormatExists name), fs)
       \<and> map_of (snd (register_unit_format name g fs)) name = Some f"
  using assms
  by (auto simp: register_unit_format_def dest: map_of_SomeD intro: rev_image_eqI)

theorem register_existing_format_raises_witness:
  "map_of (module_formatters example_env) ''P'' = Some (Method (format_pretty example_env))
   \<and> register_unit_format ''P'' (Function (\<lambda>unit reg opts. Inr ''custom''))
        (module_formatters example_env)
      = (Inl (FormatExists ''P''), module_formatters example_env)
   \<and> map_of (snd (register_unit_format ''P'' (Function (\<lambda>unit reg opts. Inr ''custom''))
                     (module_formatters example_env))) ''P''
      = Some (Method (format_pretty example_env))"
proof -
  have h: "map_of (module_formatters example_env) ''P''
           = Some (Method (format_pretty example_env))"
    by (simp add: module_formatters_def)
  from register_existing_format_raises[OF h] h show ?thesis by blast
qed

text \<open>
  C10: \<open>format_unit\<close>, the function of the module as well as the method of
  \<open>Formatter\<close>, called with an empty unit mapping returns the empty string when the
  spec ends with \<open>%\<close> and \<open>dimensionless\<close> otherwise, for every spec and every
  content of the registry of formats: the registry is not consulted, so a spec that is
  not registered does not raise.
\<close>

theorem format_unit_empty_unit:
  "format_unit fs [] spec kw_registry opts
     = Inr (if endswith spec ''%'' then [] else ''dimensionless'')
   \<and> formatter_format_unit fs self [] spec reg opts
     = Inr (if endswith spec ''%'' then [] else ''dimensionless'')"
  by (simp add: format_unit_def formatter_format_unit_def)

subsection \<open>Splitting a format spec\<close>

declare str_replace.simps [simp del]
declare findall_joined.simps [simp del]

lemma known_flags_module:
  "known_flags (module_formatters env) = [''Lx'', ''P'', ''L'', ''H'', ''D'', ''C'']"
  by (simp add: known_flags_def module_formatters_def)

lemma str_replace_Nil: "old \<noteq> [] \<Longrightarrow> str_replace old new [] = []"
  by (subst str_replace.simps) simp

lemma str_replace_char: "str_replace [c] [] s = filter (\<lambda>x. x \<noteq> c) s"
proof (induction s)
  case Nil
  show ?case by (simp add: str_replace_Nil)
next
  case (Cons a s)
  then show ?case by (subst str_replace.simps) auto
qed

lemma remove_custom_flags_module:
  "remove_custom_flags (module_formatters env) spec
   = filter (\<lambda>x. x \<notin> set ''PLHDC~'') (str_replace ''Lx'' [] spec)"
  by (simp add: remove_custom_flags_def known_flags_module str_replace_char conj_commute conj_left_commute)

lemma findall_Nil: "findall_joined flags [] = []"
  by (subst findall_joined.simps) simp

lemma findall_Lx:
  "findall_joined module_flags (CHR ''L'' # CHR ''x'' # r) = ''Lx'' @ findall_joined module_flags r"
  by (subst findall_joined.simps) (simp add: module_flags_def)

lemma findall_flag:
  assumes "c \<in> set ''PLHDC~''" "\<not> prefix ''Lx'' (c # cs)"
  shows "findall_joined module_flags (c # cs) = c # findall_joined module_flags cs"
  using assms by (subst findall_joined.simps) (auto simp: module_flags_def)

lemma findall_other:
  assumes "c \<notin> set ''PLHDC~''"
  shows "findall_joined module_flags (c # cs) = findall_joined module_flags cs"
  using assms by (subst findall_joined.simps) (auto simp: module_flags_def)

lemma replace_Lx:
  "str_replace ''Lx'' [] (CHR ''L'' # CHR ''x'' # r) = str_replace ''Lx'' [] r"
  by (subst str_replace.simps) simp

lemma replace_not_Lx:
  "\<not> prefix ''Lx'' (c # cs) \<Longrightarrow> str_replace ''Lx'' [] (c # cs) = c # str_replace ''Lx'' [] cs"
  by (subst str_replace.simps) auto

lemma module_round_trip:
  "mset (filter (\<lambda>x. x \<notin> set ''PLHDC~'') (str_replace ''Lx'' [] s))
   + mset (findall_joined module_flags s) = mset s"
proof (induction s rule: length_induct)
  case (1 s)
  show ?case
  proof (cases s)
    case Nil
    then show ?thesis by (simp add: findall_Nil str_replace_Nil)
  next
    case (Cons c cs)
    show ?thesis
    proof (cases "prefix ''Lx'' s")
      case True
      then obtain r where r: "s = CHR ''L'' # CHR ''x'' # r"
        by (auto simp: prefix_def)
      with 1 have "mset (filter (\<lambda>x. x \<notin> set ''PLHDC~'') (str_replace ''Lx'' [] r))
                   + mset (findall_joined module_flags r) = mset r" by simp
      then show ?thesis
        by (simp only: r replace_Lx findall_Lx) simp
    next
      case False
      from 1 Cons have IH: "mset (filter (\<lambda>x. x \<notin> set ''PLHDC~'') (str_replace ''Lx'' [] cs))
                   + mset (findall_joined module_flags cs) = mset cs" by simp
      from False Cons have np: "\<not> prefix ''Lx'' (c # cs)" by simp
      show ?thesis
      proof (cases "c \<in> set ''PLHDC~''")
        case True
        show ?thesis
          unfolding Cons replace_not_Lx[OF np] findall_flag[OF True np]
          using IH True by simp
      next
        case nf: False
        show ?thesis
          unfolding Cons replace_not_Lx[OF np] findall_other[OF nf]
          using IH nf by simp
      qed
    qed
  qed
qed

lemma extract_custom_flags_module:
  "extract_custom_flags (module_formatters env) spec = findall_joined module_flags spec"
  by (simp add: extract_custom_flags_def known_flags_module module_flags_def findall_Nil)

text \<open>
  C5 (as stated): the two sub-specs that the splitter returns would hold exactly the
  characters of the spec. When the spec has no unit flag, \<open>split_format\<close> takes the
  unit sub-spec of the default instead: the spec \<open>.2f\<close> with the default \<open>~P\<close> splits
  into \<open>.2f\<close> and \<open>~P\<close>, two characters more than the spec has.
\<close>

theorem split_format_takes_default:
  "split_format (module_formatters example_env) ''.2f'' ''~P'' (Some True)
     = (''.2f'', ''~P'', [])
   \<and> mset (''.2f'' @ ''~P'') \<noteq> mset ''.2f''"
proof -
  have m: "remove_custom_flags (module_formatters example_env) ''.2f'' = ''.2f''"
    by (simp add: remove_custom_flags_module replace_not_Lx str_replace_Nil)
  have u: "extract_custom_flags (module_formatters example_env) ''.2f'' = []"
    by (simp add: extract_custom_flags_module findall_other findall_Nil)
  have dm: "remove_custom_flags (module_formatters example_env) ''~P'' = []"
    by (simp add: remove_custom_flags_module replace_not_Lx str_replace_Nil)
  have du: "extract_custom_flags (module_formatters example_env) ''~P'' = ''~P''"
    by (simp add: extract_custom_flags_module findall_flag findall_Nil)
  have "split_format (module_formatters example_env) ''.2f'' ''~P'' (Some True)
          = (''.2f'', ''~P'', [])"
    by (simp add: split_format_def m u dm du)
  moreover have "mset (''.2f'' @ ''~P'') \<noteq> mset ''.2f''"
    by (auto dest: mset_eq_length)
  ultimately show ?thesis by simp
qed

text \<open>
  C5 (amended): for every spec string, with the formats that this module registers,
  \<open>remove_custom_flags(spec)\<close> and \<open>extract_custom_flags(spec)\<close> together hold, as a
  multiset, exactly the characters of the spec; and they are the magnitude and unit
  sub-specs that \<open>split_format\<close> returns whenever both are non-empty (an empty one is
  where the default's sub-spec can come in).
\<close>

theorem split_round_trip:
  "mset (remove_custom_flags (module_formatters env) spec
         @ extract_custom_flags (module_formatters env) spec) = mset spec
   \<and> (remove_custom_flags (module_formatters env) spec \<noteq> []
        \<and> extract_custom_flags (module_formatters env) spec \<noteq> []
      \<longrightarrow> (case split_format (module_formatters env) spec default_spec sep of
             (mspec, uspec, ws) \<Rightarrow> (mspec, uspec))
           = (remove_custom_flags (module_formatters env) spec,
              extract_custom_flags (module_formatters env) spec))"
proof -
  have "mset (remove_custom_flags (module_formatters env) spec
              @ extract_custom_flags (module_formatters env) spec) = mset spec"
    using module_round_trip[of spec]
    by (simp add: remove_custom_flags_module extract_custom_flags_module)
  moreover have "remove_custom_flags (module_formatters env) [] = []"
    by (simp add: remove_custom_flags_module str_replace_Nil)
  then have "remove_custom_flags (module_formatters env) spec \<noteq> []
        \<and> extract_custom_flags (module_formatters env) spec \<noteq> []
      \<longrightarrow> (case split_format (module_formatters env) spec default_spec sep of
             (mspec, uspec, ws) \<Rightarrow> (mspec, uspec))
           = (remove_custom_flags (module_formatters env) spec,
              extract_custom_flags (module_formatters env) spec)"
    by (auto simp: split_format_def Let_def)
  ultimately show ?thesis by simp
qed

theorem split_round_trip_witness:
  "remove_custom_flags (module_formatters example_env) ''.2fLx'' \<noteq> []
   \<and> extract_custom_flags (module_formatters example_env) ''.2fLx'' \<noteq> []
   \<and> (case split_format (module_formatters example_env) ''.2fLx'' ''~P'' (Some True) of
        (mspec, uspec, ws) \<Rightarrow> (mspec, uspec)) = (''.2f'', ''Lx'')
   \<and> mset (''.2f'' @ ''Lx'') = mset ''.2fLx''"
proof -
  have m: "remove_custom_flags (module_formatters example_env) ''.2fLx'' = ''.2f''"
    by (simp add: remove_custom_flags_module replace_not_Lx replace_Lx str_replace_Nil)
  have u: "extract_custom_flags (module_formatters example_env) ''.2fLx'' = ''Lx''"
    by (simp add: extract_custom_flags_module findall_other findall_Lx findall_Nil)
  from split_round_trip[of example_env "''.2fLx''" "''~P''" "Some True"] m u
  show ?thesis by simp
qed

end
